theory Spec2Isabelle
  imports Main
begin

section \<open>Python values and library operations used by whitenoise/base.py\<close>

text \<open>
  Exceptions are values: every operation that can raise returns \<open>error + 'a\<close>, with
  \<open>Inl\<close> for the exception. \<open>MissingFileError\<close> is the repository's own exception (utils);
  the others are Python's. \<open>OtherError\<close> stands for any exception a caller-supplied hook
  raises.
\<close>

datatype error =
    MissingFileError
  | OSError
  | AttributeError
  | TypeError
  | KeyError
  | OtherError string

text \<open>
  Text is \<open>string\<close>: WSGI passes header values and paths as native strings whose characters
  are Latin-1 code points, which is what an 8-bit \<open>char\<close> holds. File contents are bytes,
  also lists of 8-bit characters.
\<close>

type_synonym bytes = string

definition dquote :: char where
  "dquote = CHR 0x22"

definition backslash :: char where
  "backslash = CHR 0x5C"

text \<open>\<open>str.isspace\<close> on the Latin-1 range, the characters \<open>str.strip()\<close> removes.\<close>

definition isspace :: "char \<Rightarrow> bool" where
  "isspace c = (c \<in> set [CHR 0x09, CHR 0x0A, CHR 0x0B, CHR 0x0C, CHR 0x0D,
                          CHR 0x1C, CHR 0x1D, CHR 0x1E, CHR 0x1F, CHR 0x20,
                          CHR 0x85, CHR 0xA0])"

definition str_strip :: "string \<Rightarrow> string" where
  "str_strip s = rev (dropWhile isspace (rev (dropWhile isspace s)))"

text \<open>\<open>s.startswith(p)\<close>.\<close>

definition startswith :: "string \<Rightarrow> string \<Rightarrow> bool" where
  "startswith s p = (take (length p) s = p)"

text \<open>
  \<open>s.split(sep)\<close> for a one-character separator: the result is never empty, and a
  trailing separator leaves a final empty token.
\<close>

fun str_split :: "char \<Rightarrow> string \<Rightarrow> string list" where
  "str_split sep [] = [[]]"
| "str_split sep (c # cs) =
     (if c = sep then [] # str_split sep cs
      else (case str_split sep cs of [] \<Rightarrow> [[c]] | t # ts \<Rightarrow> (c # t) # ts))"

text \<open>\<open>sep.join(parts)\<close>.\<close>

fun str_join :: "string \<Rightarrow> string list \<Rightarrow> string" where
  "str_join sep [] = []"
| "str_join sep [x] = x"
| "str_join sep (x # y # ys) = x @ sep @ str_join sep (y # ys)"

text \<open>\<open>str.lower\<close> on the Latin-1 range.\<close>

definition lower_char :: "char \<Rightarrow> char" where
  "lower_char c =
     (let n = (of_char c :: nat)
      in if (65 \<le> n \<and> n \<le> 90) \<or> (192 \<le> n \<and> n \<le> 222 \<and> n \<noteq> 215)
         then char_of (n + 32) else c)"

definition str_lower :: "string \<Rightarrow> string" where
  "str_lower s = map lower_char s"

text \<open>\<open>str(n)\<close> and \<open>'{0}'.format(n)\<close> for an integer: its decimal digits.\<close>

fun str_nat :: "nat \<Rightarrow> string" where
  "str_nat n =
     (if n < 10 then [char_of (48 + n)]
      else str_nat (n div 10) @ [char_of (48 + n mod 10)])"

declare str_nat.simps [simp del]

definition str_int :: "int \<Rightarrow> string" where
  "str_int i = (if i < 0 then ''-'' @ str_nat (nat (- i)) else str_nat (nat i))"

text \<open>
  \<open>posixpath.normpath\<close>, which base.py imports by name: empty and \<open>.\<close> components are
  dropped, \<open>..\<close> removes the component before it (and is kept at the start of a relative
  path), exactly two leading slashes are kept, three or more become one, and the empty
  result is \<open>.\<close>.
\<close>

fun normpath_comps :: "bool \<Rightarrow> string list \<Rightarrow> string list \<Rightarrow> string list" where
  "normpath_comps initial_slashes new_comps [] = new_comps"
| "normpath_comps initial_slashes new_comps (cmp # comps) =
     (if cmp = [] \<or> cmp = ''.'' then normpath_comps initial_slashes new_comps comps
      else if cmp \<noteq> ''..'' \<or> (\<not> initial_slashes \<and> new_comps = [])
              \<or> (new_comps \<noteq> [] \<and> last new_comps = ''..'')
        then normpath_comps initial_slashes (new_comps @ [cmp]) comps
      else if new_comps \<noteq> [] then normpath_comps initial_slashes (butlast new_comps) comps
      else normpath_comps initial_slashes new_comps comps)"

definition normpath :: "string \<Rightarrow> string" where
  "normpath path =
     (if path = [] then ''.''
      else
        let initial_slashes =
              (if startswith path ''/''
               then (if startswith path ''//'' \<and> \<not> startswith path ''///'' then 2 else 1)
               else (0::nat));
            comps = normpath_comps (initial_slashes \<noteq> 0) [] (str_split (CHR ''/'') path);
            joined = replicate initial_slashes (CHR ''/'') @ str_join ''/'' comps
        in if joined = [] then ''.'' else joined)"

text \<open>\<open>posixpath.join(a, b)\<close>, what \<open>os.path.join\<close> is on a POSIX host.\<close>

definition posix_join :: "string \<Rightarrow> string \<Rightarrow> string" where
  "posix_join a b =
     (if startswith b ''/'' then b
      else if a = [] \<or> last a = CHR ''/'' then a @ b
      else a @ ''/'' @ b)"

text \<open>\<open>s.replace('\\', '/')\<close>.\<close>

definition replace_backslash :: "string \<Rightarrow> string" where
  "replace_backslash s = map (\<lambda>c. if c = backslash then CHR ''/'' else c) s"

text \<open>
  A time tuple, as \<open>email.utils.parsedate\<close> returns it, is a list of integers; Python
  compares tuples lexicographically. \<open>parsedate\<close> returns \<open>None\<close> for a value it cannot
  parse, and under Python 3 (which the zero-argument \<open>super()\<close> of the hashed entry class
  requires) an order comparison with \<open>None\<close> raises \<open>TypeError\<close>.
\<close>

fun tuple_ge :: "int list \<Rightarrow> int list \<Rightarrow> bool" where
  "tuple_ge xs [] = True"
| "tuple_ge [] (y # ys) = False"
| "tuple_ge (x # xs) (y # ys) = (if x = y then tuple_ge xs ys else y < x)"

definition py_ge :: "int list option \<Rightarrow> int list option \<Rightarrow> error + bool" where
  "py_ge a b =
     (case a of
        None \<Rightarrow> Inl TypeError
      | Some x \<Rightarrow> (case b of None \<Rightarrow> Inl TypeError | Some y \<Rightarrow> Inr (tuple_ge x y)))"

subsection \<open>wsgiref.headers.Headers\<close>

text \<open>
  An ordered list of name/value pairs. Names compare case-insensitively; assignment
  removes every pair of that name and appends the new one; lookup returns the first
  match or \<open>None\<close>; \<open>add_header\<close> appends without removing, joining the value and its
  quoted parameters with \<open>; \<close>.
\<close>

type_synonym Headers = "(string \<times> string) list"

definition headers_del :: "Headers \<Rightarrow> string \<Rightarrow> Headers" where
  "headers_del h name = filter (\<lambda>kv. str_lower (fst kv) \<noteq> str_lower name) h"

definition headers_set :: "Headers \<Rightarrow> string \<Rightarrow> string \<Rightarrow> Headers" where
  "headers_set h name val = headers_del h name @ [(name, val)]"

definition headers_get :: "Headers \<Rightarrow> string \<Rightarrow> string option" where
  "headers_get h name =
     map_option snd (find (\<lambda>kv. str_lower (fst kv) = str_lower name) h)"

definition formatparam :: "string \<Rightarrow> string \<Rightarrow> string" where
  "formatparam param val =
     (if val \<noteq> []
      then param @ ''='' @ [dquote]
           @ concat (map (\<lambda>c. if c = backslash then [backslash, backslash]
                               else if c = dquote then [backslash, dquote] else [c]) val)
           @ [dquote]
      else param)"

definition add_header :: "Headers \<Rightarrow> string \<Rightarrow> string \<Rightarrow> (string \<times> string) list \<Rightarrow> Headers" where
  "add_header h name val params =
     h @ [(name, str_join ''; '' (val # map (\<lambda>kv. formatparam (fst kv) (snd kv)) params))]"

section \<open>The data model\<close>

text \<open>
  An entry (\<open>StaticFile\<close>). The class itself lives in static_file.py; base.py reads its
  \<open>last_modified\<close> attribute and, in the hashed subclass, adds \<open>etag\<close>, which is
  \<open>headers['etag']\<close>: the header's value, or \<open>None\<close> when the header is absent.
\<close>

record static_file =
  sf_path :: string
  sf_headers :: Headers
  sf_last_modified :: "int list option"
  sf_etag :: "string option"

record stat_result =
  st_mtime :: int
  st_size :: nat

text \<open>The response object an entry produces, and what the WSGI server receives.\<close>

record response =
  status_code :: nat
  status_phrase :: string
  resp_headers :: Headers
  resp_file :: "bytes option"

record wsgi_result =
  status_line :: string
  response_headers :: Headers
  body :: bytes

type_synonym environ = "string \<rightharpoonup> string"

text \<open>
  The collaborators base.py calls but does not define: the file system, the standard
  library and the repository's own modules utils, media_types and static_file. They are
  parameters of the model.
\<close>

record env =
  stat_regular_file :: "string \<Rightarrow> error + stat_result"
  read_file :: "string \<Rightarrow> error + bytes"
  walk :: "string \<Rightarrow> (string \<times> string list) list"
  path_join :: "string \<Rightarrow> string \<Rightarrow> string"
  relpath :: "string \<Rightarrow> string \<Rightarrow> string"
  formatdate :: "int \<Rightarrow> string"
  parsedate :: "string \<Rightarrow> int list option"
  md5_digest :: "bytes \<Rightarrow> bytes"
  b64encode :: "bytes \<Rightarrow> string"
  get_type :: "string \<Rightarrow> string"
  ensure_leading_trailing_slash :: "string option \<Rightarrow> string"
  decode_path_info :: "string \<Rightarrow> string"
  new_StaticFile :: "string \<Rightarrow> Headers \<Rightarrow> static_file"
  get_response :: "static_file \<Rightarrow> string \<Rightarrow> environ \<Rightarrow> error + response"

text \<open>The two classes of base.py.\<close>

datatype variant = Plain | HashedEtag

text \<open>
  A \<open>WhiteNoise\<close> object: its class, its configuration attributes, the wrapped
  application, the url-to-entry dictionary of static mode and the mount list of
  autorefresh mode. \<open>immutable_policy\<close> is the method \<open>self.is_immutable_file\<close> resolves
  to, which subclasses override.
\<close>

record whitenoise =
  cls :: variant
  autorefresh :: bool
  max_age :: "int option"
  allow_all_origins :: bool
  charset :: "string option"
  add_headers_function :: "(Headers \<Rightarrow> string \<Rightarrow> string \<Rightarrow> error + Headers) option"
  immutable_policy :: "string \<Rightarrow> string \<Rightarrow> bool"
  application :: "environ \<Rightarrow> error + wsgi_result"
  files :: "string \<rightharpoonup> static_file"
  directories :: "(string \<times> string) list"

section \<open>Header computation\<close>

definition FOREVER :: int where
  "FOREVER = 10 * 365 * 24 * 60 * 60"

definition add_stat_headers :: "env \<Rightarrow> Headers \<Rightarrow> string \<Rightarrow> string \<Rightarrow> error + Headers" where
  "add_stat_headers e hdrs path url =
     (case stat_regular_file e path of
        Inl err \<Rightarrow> Inl err
      | Inr file_stat \<Rightarrow>
          Inr (headers_set
                 (headers_set hdrs ''Last-Modified'' (formatdate e (st_mtime file_stat)))
                 ''Content-Length'' (str_nat (st_size file_stat))))"

definition get_charset :: "whitenoise \<Rightarrow> string \<Rightarrow> string \<Rightarrow> string \<Rightarrow> string option" where
  "get_charset self media_type path url =
     (if startswith media_type ''text/'' \<or> media_type = ''application/javascript''
      then charset self else None)"

definition add_mime_headers :: "env \<Rightarrow> whitenoise \<Rightarrow> Headers \<Rightarrow> string \<Rightarrow> string \<Rightarrow> Headers" where
  "add_mime_headers e self hdrs path url =
     (let media_type = get_type e path;
          params = (case get_charset self media_type path url of
                      None \<Rightarrow> []
                    | Some cs \<Rightarrow> if cs = [] then [] else [(''charset'', cs)])
      in add_header hdrs ''Content-Type'' media_type params)"

definition is_immutable_file :: "string \<Rightarrow> string \<Rightarrow> bool" where
  "is_immutable_file path url = False"

definition add_cache_headers :: "whitenoise \<Rightarrow> Headers \<Rightarrow> string \<Rightarrow> string \<Rightarrow> Headers" where
  "add_cache_headers self hdrs path url =
     (if immutable_policy self path url
      then headers_set hdrs ''Cache-Control''
             (''max-age='' @ str_int FOREVER @ '', public, immutable'')
      else (case max_age self of
              Some n \<Rightarrow> headers_set hdrs ''Cache-Control'' (''max-age='' @ str_int n @ '', public'')
            | None \<Rightarrow> hdrs))"

definition add_cors_headers :: "whitenoise \<Rightarrow> Headers \<Rightarrow> string \<Rightarrow> string \<Rightarrow> Headers" where
  "add_cors_headers self hdrs path url =
     (if allow_all_origins self then headers_set hdrs ''Access-Control-Allow-Origin'' ''*''
      else hdrs)"

definition add_extra_headers :: "whitenoise \<Rightarrow> Headers \<Rightarrow> string \<Rightarrow> string \<Rightarrow> Headers" where
  "add_extra_headers self hdrs path url = hdrs"

definition run_add_headers_function ::
    "whitenoise \<Rightarrow> Headers \<Rightarrow> string \<Rightarrow> string \<Rightarrow> error + Headers" where
  "run_add_headers_function self hdrs path url =
     (case add_headers_function self of
        None \<Rightarrow> Inr hdrs
      | Some f \<Rightarrow> f hdrs path url)"

definition get_static_file :: "env \<Rightarrow> whitenoise \<Rightarrow> string \<Rightarrow> string \<Rightarrow> error + static_file" where
  "get_static_file e self path url =
     (case add_stat_headers e [] path url of
        Inl err \<Rightarrow> Inl err
      | Inr h1 \<Rightarrow>
          let h2 = add_mime_headers e self h1 path url;
              h3 = add_cache_headers self h2 path url;
              h4 = add_cors_headers self h3 path url;
              h5 = add_extra_headers self h4 path url
          in (case run_add_headers_function self h5 path url of
                Inl err \<Rightarrow> Inl err
              | Inr h6 \<Rightarrow> Inr (new_StaticFile e path h6)))"

subsection \<open>The hashed-validator subclass\<close>

text \<open>
  \<open>add_etag_headers\<close> reads the file and computes the base64 text of its MD5 digest; its
  last statement then calls \<open>update\<close> on the string literal \<open>'"{:s}"'\<close>. A Python string
  has no such attribute, so that statement raises \<open>AttributeError\<close> before anything is
  assigned to the header.
\<close>

definition add_etag_headers :: "env \<Rightarrow> Headers \<Rightarrow> string \<Rightarrow> string \<Rightarrow> error + Headers" where
  "add_etag_headers e hdrs path url =
     (case read_file e path of
        Inl err \<Rightarrow> Inl err
      | Inr content \<Rightarrow>
          let b64hash = b64encode e (md5_digest e content)
          in Inl AttributeError)"

definition StaticFile_hashed :: "env \<Rightarrow> string \<Rightarrow> Headers \<Rightarrow> static_file" where
  "StaticFile_hashed e path hdrs =
     (new_StaticFile e path hdrs)\<lparr>sf_etag := headers_get hdrs ''etag''\<rparr>"

definition hashed_get_static_file ::
    "env \<Rightarrow> whitenoise \<Rightarrow> string \<Rightarrow> string \<Rightarrow> error + static_file" where
  "hashed_get_static_file e self path url =
     (case add_stat_headers e [] path url of
        Inl err \<Rightarrow> Inl err
      | Inr h1 \<Rightarrow>
          let h2 = add_mime_headers e self h1 path url;
              h3 = add_cache_headers self h2 path url;
              h4 = add_cors_headers self h3 path url
          in (case add_etag_headers e h4 path url of
                Inl err \<Rightarrow> Inl err
              | Inr h5 \<Rightarrow>
                  let h6 = add_extra_headers self h5 path url
                  in (case run_add_headers_function self h6 path url of
                        Inl err \<Rightarrow> Inl err
                      | Inr h7 \<Rightarrow> Inr (StaticFile_hashed e path h7))))"

text \<open>\<open>self.get_static_file\<close>: the method of the object's class.\<close>

definition self_get_static_file ::
    "env \<Rightarrow> whitenoise \<Rightarrow> string \<Rightarrow> string \<Rightarrow> error + static_file" where
  "self_get_static_file e self path url =
     (case cls self of
        Plain \<Rightarrow> get_static_file e self path url
      | HashedEtag \<Rightarrow> hashed_get_static_file e self path url)"

section \<open>Resolution\<close>

text \<open>The loop of \<open>find_file\<close> over \<open>self.directories\<close>; falling off its end returns \<open>None\<close>.\<close>

fun find_file_loop ::
    "env \<Rightarrow> whitenoise \<Rightarrow> string \<Rightarrow> (string \<times> string) list \<Rightarrow> error + static_file option" where
  "find_file_loop e self url [] = Inr None"
| "find_file_loop e self url ((root, prefix) # rest) =
     (if startswith url prefix
      then (case self_get_static_file e self
                   (path_join e root (drop (length prefix) url)) url of
              Inr sf \<Rightarrow> Inr (Some sf)
            | Inl MissingFileError \<Rightarrow> find_file_loop e self url rest
            | Inl err \<Rightarrow> Inl err)
      else find_file_loop e self url rest)"

definition find_file :: "env \<Rightarrow> whitenoise \<Rightarrow> string \<Rightarrow> error + static_file option" where
  "find_file e self url =
     (if url = [] \<or> last url = CHR ''/'' then Inr None
      else if normpath url \<noteq> url then Inr None
      else find_file_loop e self url (directories self))"

text \<open>
  \<open>update_files_dictionary\<close>: the inner loop over the file names of one directory and the
  outer loop over the directories \<open>os.walk\<close> yields. An exception of \<open>get_static_file\<close>
  is not caught here and ends the walk.
\<close>

fun update_files_filenames ::
    "env \<Rightarrow> whitenoise \<Rightarrow> string \<Rightarrow> string \<Rightarrow> string \<Rightarrow> string list
       \<Rightarrow> (string \<rightharpoonup> static_file) \<Rightarrow> error + (string \<rightharpoonup> static_file)" where
  "update_files_filenames e self root prefix directory [] fs = Inr fs"
| "update_files_filenames e self root prefix directory (filename # filenames) fs =
     (let path = path_join e directory filename;
          url = prefix @ replace_backslash (relpath e path root)
      in case self_get_static_file e self path url of
           Inl err \<Rightarrow> Inl err
         | Inr sf \<Rightarrow>
             update_files_filenames e self root prefix directory filenames (fs(url \<mapsto> sf)))"

fun update_files_walk ::
    "env \<Rightarrow> whitenoise \<Rightarrow> string \<Rightarrow> string \<Rightarrow> (string \<times> string list) list
       \<Rightarrow> (string \<rightharpoonup> static_file) \<Rightarrow> error + (string \<rightharpoonup> static_file)" where
  "update_files_walk e self root prefix [] fs = Inr fs"
| "update_files_walk e self root prefix ((directory, filenames) # rest) fs =
     (case update_files_filenames e self root prefix directory filenames fs of
        Inl err \<Rightarrow> Inl err
      | Inr fs' \<Rightarrow> update_files_walk e self root prefix rest fs')"

definition update_files_dictionary ::
    "env \<Rightarrow> whitenoise \<Rightarrow> string \<Rightarrow> string \<Rightarrow> error + whitenoise" where
  "update_files_dictionary e self root prefix =
     (case update_files_walk e self root prefix (walk e root) (files self) of
        Inl err \<Rightarrow> Inl err
      | Inr fs \<Rightarrow> Inr (self\<lparr>files := fs\<rparr>))"

text \<open>
  \<open>add_files\<close>. Roots and prefixes are text here, on which \<open>decode_if_byte_string\<close> has
  nothing to decode; the prefix may be \<open>None\<close>.
\<close>

definition add_files :: "env \<Rightarrow> whitenoise \<Rightarrow> string \<Rightarrow> string option \<Rightarrow> error + whitenoise" where
  "add_files e self root prefix =
     (let prefix' = ensure_leading_trailing_slash e prefix
      in if autorefresh self
         then Inr (self\<lparr>directories := (root, prefix') # directories self\<rparr>)
         else update_files_dictionary e self root prefix')"

section \<open>Conditional evaluation of the hashed entry\<close>

text \<open>The loop of \<open>_if_none_match_etag\<close> over the client's tags.\<close>

fun client_etags_loop :: "string \<Rightarrow> string list \<Rightarrow> bool" where
  "client_etags_loop self_etag [] = False"
| "client_etags_loop self_etag (t # ts) =
     (if str_strip t = self_etag then True else client_etags_loop self_etag ts)"

definition if_none_match_etag :: "static_file \<Rightarrow> string \<Rightarrow> bool" where
  "if_none_match_etag self inm_header =
     (case sf_etag self of
        None \<Rightarrow> False
      | Some self_etag \<Rightarrow>
          if self_etag = [] \<or> inm_header = [] then False
          else
            let inm_header' = (if startswith inm_header ''W/'' then drop 2 inm_header
                               else inm_header);
                client_etags = str_split (CHR '','') inm_header'
            in client_etags_loop self_etag client_etags)"

definition file_not_modified :: "env \<Rightarrow> static_file \<Rightarrow> environ \<Rightarrow> error + bool" where
  "file_not_modified e self request_headers =
     (case request_headers ''HTTP_IF_NONE_MATCH'' of
        Some inm \<Rightarrow> Inr (if_none_match_etag self inm)
      | None \<Rightarrow>
          (case request_headers ''HTTP_IF_MODIFIED_SINCE'' of
             None \<Rightarrow> Inr False
           | Some last_requested \<Rightarrow>
               py_ge (parsedate e last_requested) (sf_last_modified self)))"

section \<open>The dispatcher\<close>

definition serve :: "env \<Rightarrow> static_file \<Rightarrow> environ \<Rightarrow> error + wsgi_result" where
  "serve e sf environ =
     (case environ ''REQUEST_METHOD'' of
        None \<Rightarrow> Inl KeyError
      | Some method \<Rightarrow>
          (case get_response e sf method environ of
             Inl err \<Rightarrow> Inl err
           | Inr r \<Rightarrow>
               Inr \<lparr>status_line = str_nat (status_code r) @ '' '' @ status_phrase r,
                    response_headers = resp_headers r,
                    body = (case resp_file r of None \<Rightarrow> [] | Some content \<Rightarrow> content)\<rparr>))"

definition call :: "env \<Rightarrow> whitenoise \<Rightarrow> environ \<Rightarrow> error + wsgi_result" where
  "call e self environ =
     (case environ ''PATH_INFO'' of
        None \<Rightarrow> Inl KeyError
      | Some path_info \<Rightarrow>
          let path = decode_path_info e path_info
          in (case (if autorefresh self then find_file e self path
                    else Inr (files self path)) of
                Inl err \<Rightarrow> Inl err
              | Inr None \<Rightarrow> application self environ
              | Inr (Some sf) \<Rightarrow> serve e sf environ))"

section \<open>The If-None-Match rule in the specification's words\<close>

text \<open>
  The specification's rule, to compare with \<open>if_none_match_etag\<close>: split the value on
  commas; from each token trim surrounding whitespace, a weak prefix and quote
  characters; the result is a match when a trimmed token equals the validator (trimmed
  the same way) or is the bare wildcard.
\<close>

definition spec_trim_token :: "string \<Rightarrow> string" where
  "spec_trim_token t =
     (let t1 = str_strip t;
          t2 = (if startswith t1 ''W/'' then drop 2 t1 else t1);
          junk = (\<lambda>c. isspace c \<or> c = dquote)
      in rev (dropWhile junk (rev (dropWhile junk t2))))"

definition spec_tokens :: "string \<Rightarrow> string list" where
  "spec_tokens inm = map spec_trim_token (str_split (CHR '','') inm)"

definition spec_if_none_match :: "string \<Rightarrow> string \<Rightarrow> bool" where
  "spec_if_none_match validator inm =
     list_ex (\<lambda>t. t = spec_trim_token validator \<or> t = ''*'') (spec_tokens inm)"

section \<open>A concrete environment for the examples\<close>

text \<open>
  A small file system and the collaborators' values on it: two mounts that both hold
  \<open>app.js\<close>, a third whose \<open>app.js\<close> can be examined but not read, and \<open>/etc/passwd\<close>
  outside every mount. The date functions are the standard library's on the dates used.
\<close>

definition demo_stat :: "string \<Rightarrow> error + stat_result" where
  "demo_stat p =
     (if p = ''/srv/static/app.js'' then Inr \<lparr>st_mtime = 986989626, st_size = 11\<rparr>
      else if p = ''/srv/new/app.js'' then Inr \<lparr>st_mtime = 986989626, st_size = 5\<rparr>
      else if p = ''/srv/locked/app.js'' then Inr \<lparr>st_mtime = 986989626, st_size = 7\<rparr>
      else if p = ''/etc/passwd'' then Inr \<lparr>st_mtime = 986989626, st_size = 4\<rparr>
      else Inl MissingFileError)"

definition demo_read :: "string \<Rightarrow> error + bytes" where
  "demo_read p =
     (if p = ''/srv/static/app.js'' then Inr ''console.log''
      else if p = ''/srv/new/app.js'' then Inr ''alert''
      else if p = ''/etc/passwd'' then Inr ''root''
      else Inl OSError)"

definition demo_walk :: "string \<Rightarrow> (string \<times> string list) list" where
  "demo_walk root =
     (if root = ''/srv/static'' then [(''/srv/static'', [''app.js''])]
      else if root = ''/srv/new'' then [(''/srv/new'', [''app.js''])]
      else [])"

definition demo_relpath :: "string \<Rightarrow> string \<Rightarrow> string" where
  "demo_relpath path start =
     (if startswith path (start @ ''/'') then drop (length start + 1) path else path)"

definition demo_formatdate :: "int \<Rightarrow> string" where
  "demo_formatdate t =
     (if t = 986989626 then ''Wed, 11 Apr 2001 11:47:06 GMT''
      else ''Thu, 01 Jan 1970 00:00:00 GMT'')"

definition demo_parsedate :: "string \<Rightarrow> int list option" where
  "demo_parsedate s =
     (if s = ''Wed, 11 Apr 2001 11:47:06 GMT'' then Some [2001, 4, 11, 11, 47, 6, 0, 1, - 1]
      else if s = ''Fri, 11 Apr 2100 11:47:06 GMT'' then Some [2100, 4, 11, 11, 47, 6, 0, 1, - 1]
      else if s = ''Thu, 01 Jan 1970 00:00:00 GMT'' then Some [1970, 1, 1, 0, 0, 0, 0, 1, - 1]
      else None)"

definition demo_get_type :: "string \<Rightarrow> string" where
  "demo_get_type p = ''application/javascript''"

definition demo_ensure_slashes :: "string option \<Rightarrow> string" where
  "demo_ensure_slashes prefix =
     (let slash = (\<lambda>c. c = CHR ''/'');
          p = (case prefix of None \<Rightarrow> [] | Some s \<Rightarrow> rev (dropWhile slash (rev (dropWhile slash s))))
      in if p = [] then ''/'' else ''/'' @ p @ ''/'')"

definition demo_StaticFile :: "string \<Rightarrow> Headers \<Rightarrow> static_file" where
  "demo_StaticFile p hdrs =
     \<lparr>sf_path = p, sf_headers = hdrs,
      sf_last_modified = (case headers_get hdrs ''Last-Modified'' of
                            None \<Rightarrow> None | Some d \<Rightarrow> demo_parsedate d),
      sf_etag = None\<rparr>"

definition demo_get_response :: "static_file \<Rightarrow> string \<Rightarrow> environ \<Rightarrow> error + response" where
  "demo_get_response sf method environ =
     (if method \<noteq> ''GET'' \<and> method \<noteq> ''HEAD''
      then Inr \<lparr>status_code = 405, status_phrase = ''Method Not Allowed'',
                resp_headers = [], resp_file = None\<rparr>
      else Inr \<lparr>status_code = 200, status_phrase = ''OK'',
                resp_headers = sf_headers sf, resp_file = None\<rparr>)"

definition demo_env :: env where
  "demo_env =
     \<lparr>stat_regular_file = demo_stat, read_file = demo_read, walk = demo_walk,
      path_join = posix_join, relpath = demo_relpath,
      formatdate = demo_formatdate, parsedate = demo_parsedate,
      md5_digest = (\<lambda>content. content), b64encode = (\<lambda>digest. digest),
      get_type = demo_get_type, ensure_leading_trailing_slash = demo_ensure_slashes,
      decode_path_info = (\<lambda>p. p), new_StaticFile = demo_StaticFile,
      get_response = demo_get_response\<rparr>"

definition demo_app :: "environ \<Rightarrow> error + wsgi_result" where
  "demo_app environ =
     Inr \<lparr>status_line = ''200 OK'', response_headers = [(''Content-Type'', ''text/plain'')],
          body = ''Hello world!''\<rparr>"

text \<open>An object with the class-level defaults of \<open>WhiteNoise\<close> and nothing registered.\<close>

definition demo_whitenoise :: whitenoise where
  "demo_whitenoise =
     \<lparr>cls = Plain, autorefresh = False, max_age = Some 60, allow_all_origins = True,
      charset = Some ''utf-8'', add_headers_function = None,
      immutable_policy = is_immutable_file, application = demo_app,
      files = Map.empty, directories = []\<rparr>"

text \<open>An entry of the hashed class whose validator is \<open>"abc"\<close>, quotes included.\<close>

definition demo_entry :: static_file where
  "demo_entry =
     \<lparr>sf_path = ''/srv/static/app.js'', sf_headers = [],
      sf_last_modified = Some [2001, 4, 11, 11, 47, 6, 0, 1, - 1],
      sf_etag = Some ([dquote] @ ''abc'' @ [dquote])\<rparr>"

section \<open>Conditional evaluation: the guards and the order of the validators\<close>

text \<open>
  C9. When the entry's etag is \<open>None\<close> or empty, or the If-None-Match value is the empty
  string, \<open>_if_none_match_etag\<close> returns false before the value is split, and a request
  carrying that header is evaluated as not "not modified".
\<close>

theorem if_none_match_guard_false:
  assumes "sf_etag self = None \<or> sf_etag self = Some [] \<or> inm = []"
  shows "if_none_match_etag self inm = False
       \<and> file_not_modified e self (rh(''HTTP_IF_NONE_MATCH'' \<mapsto> inm)) = Inr False"
  using assms
  by (auto simp: if_none_match_etag_def file_not_modified_def split: option.splits)

theorem if_none_match_guard_false_witness:
  "(sf_etag demo_entry = None \<or> sf_etag demo_entry = Some [] \<or> ([]::string) = [])
   \<and> if_none_match_etag demo_entry [] = False
   \<and> file_not_modified demo_env demo_entry (Map.empty(''HTTP_IF_NONE_MATCH'' \<mapsto> [])) = Inr False"
  using if_none_match_guard_false [of demo_entry "[]" demo_env Map.empty]
  by simp

text \<open>
  C3. The claim is that an If-Modified-Since value that does not parse is treated as
  absent. The code compares \<open>parsedate\<close>'s \<open>None\<close> with the entry's time tuple, which
  raises \<open>TypeError\<close>: with no If-None-Match header and an unparseable If-Modified-Since,
  \<open>file_not_modified\<close> raises instead of returning false.
\<close>

theorem unparseable_if_modified_since_raises:
  assumes "rh ''HTTP_IF_NONE_MATCH'' = None"
    and "rh ''HTTP_IF_MODIFIED_SINCE'' = Some v"
    and "parsedate e v = None"
  shows "file_not_modified e self rh = Inl TypeError"
  using assms by (simp add: file_not_modified_def py_ge_def)

theorem unparseable_if_modified_since_raises_witness:
  "[''HTTP_IF_MODIFIED_SINCE'' \<mapsto> ''garbage''] ''HTTP_IF_NONE_MATCH'' = None
   \<and> [''HTTP_IF_MODIFIED_SINCE'' \<mapsto> ''garbage''] ''HTTP_IF_MODIFIED_SINCE'' = Some ''garbage''
   \<and> parsedate demo_env ''garbage'' = None
   \<and> file_not_modified demo_env demo_entry [''HTTP_IF_MODIFIED_SINCE'' \<mapsto> ''garbage'']
       = Inl TypeError"
  using unparseable_if_modified_since_raises
          [of "[''HTTP_IF_MODIFIED_SINCE'' \<mapsto> ''garbage'']" "''garbage''" demo_env demo_entry]
  by (simp add: demo_env_def demo_parsedate_def)




section \<open>The content validator\<close>

text \<open>
  C1. The claim is that \<open>add_etag_headers\<close> stores the quoted base64 digest and completes
  for every readable file. The code raises \<open>AttributeError\<close> for every readable file, so
  no entry of the hashed class is ever built.
\<close>

theorem add_etag_headers_raises:
  assumes "read_file e path = Inr content"
  shows "add_etag_headers e hdrs path url = Inl AttributeError
       \<and> hashed_get_static_file e self path url \<noteq> Inr sf"
  using assms
  by (auto simp: add_etag_headers_def hashed_get_static_file_def Let_def split: sum.splits)

theorem add_etag_headers_raises_witness:
  "read_file demo_env ''/srv/static/app.js'' = Inr ''console.log''
   \<and> add_etag_headers demo_env [] ''/srv/static/app.js'' ''/app.js'' = Inl AttributeError
   \<and> hashed_get_static_file demo_env (demo_whitenoise\<lparr>cls := HashedEtag\<rparr>)
         ''/srv/static/app.js'' ''/app.js'' \<noteq> Inr demo_entry"
  using add_etag_headers_raises
          [of demo_env "''/srv/static/app.js''" "''console.log''" "[]" "''/app.js''"
              "demo_whitenoise\<lparr>cls := HashedEtag\<rparr>" demo_entry]
  by (simp add: demo_env_def demo_read_def)

section \<open>Resolution in autorefresh mode\<close>



end
